theory Spec2Isabelle
  imports Complex_Main "HOL-Library.Word"
begin

section \<open>Radar echo frames: data model\<close>

text \<open>
  The development follows \<^verbatim>\<open>src/seq_wise/utils/dataset.py\<close>. Unsigned 32-bit fields
  decoded from a frame are natural numbers below \<open>2 ^ 32\<close>; the float64 values the
  code derives from them (\<open>freq\<close>, \<open>prt\<close>, \<open>e_scan_az\<close>, velocities, magnitudes) are
  modelled as exact reals, so rounding, infinities and NaN are outside the model.
  A range-Doppler matrix is a list of rows.
\<close>

type_synonym matrix = "real list list"

record parameters =
  e_scan_az :: real
  track_no_info :: "nat list"
  freq :: real
  cpi_count :: nat
  prt_num :: nat
  prt :: real
  data_length :: nat

datatype py_error = IndexError | ValueError | AssertionError

subsection \<open>Parameter validation\<close>

text \<open>
  Lines 208--215 of \<^verbatim>\<open>read_raw_data\<close>: the three range checks on the decoded record,
  in the order of the source. \<open>True\<close> means that no check returned \<^verbatim>\<open>None, None\<close>.
\<close>

definition param_check :: "parameters \<Rightarrow> bool" where
  "param_check params =
     (if prt_num params \<le> 0 \<or> prt_num params > 10000 then False
      else if prt params \<le> 0 \<or> prt params > 1 then False
      else if freq params \<le> 0 \<or> freq params > 10 ^ 12 then False
      else True)"

text \<open>
  Lines 365--374 of \<^verbatim>\<open>RDSeq._process_batch\<close>: the checks that skip a frame before
  any signal processing. \<open>True\<close> means that no check executed \<^verbatim>\<open>continue\<close>.
\<close>

definition frame_precheck :: "parameters \<Rightarrow> bool" where
  "frame_precheck params =
     (if length (track_no_info params) = 0 then False
      else if length (track_no_info params) < 4 then False
      else if prt params \<le> 0 \<or> prt_num params \<le> 0 \<or> freq params \<le> 0 then False
      else True)"

text \<open>A decoded record passes parameter validation when it passes both places.\<close>

definition parameter_validator :: "parameters \<Rightarrow> bool" where
  "parameter_validator params = (param_check params \<and> frame_precheck params)"

text \<open>A record well inside every bound, used to exercise single fields.\<close>

definition nominal_params :: parameters where
  "nominal_params =
     \<lparr>e_scan_az = 0, track_no_info = [0, 0, 100, 3], freq = 3750000000, cpi_count = 0,
      prt_num = 16, prt = 1 / 8000, data_length = 31\<rparr>"

subsection \<open>Python slices\<close>

text \<open>
  A slice bound is normalised as Python does: a negative bound counts from the end and
  is clipped at 0, a bound past the end is clipped at the length. \<open>py_slice a b xs\<close> is
  \<^verbatim>\<open>xs[a:b]\<close> and \<open>py_slice_fill a b v xs\<close> is the list after \<^verbatim>\<open>xs[a:b] = v\<close>.
\<close>

definition slice_bound :: "nat \<Rightarrow> int \<Rightarrow> nat" where
  "slice_bound n i = (if i < 0 then nat (max 0 (i + int n)) else min (nat i) n)"

definition py_slice :: "int \<Rightarrow> int \<Rightarrow> 'a list \<Rightarrow> 'a list" where
  "py_slice a b xs =
     (let s = slice_bound (length xs) a; e = slice_bound (length xs) b
      in take (e - s) (drop s xs))"

definition py_slice_fill :: "int \<Rightarrow> int \<Rightarrow> 'a \<Rightarrow> 'a list \<Rightarrow> 'a list" where
  "py_slice_fill a b v xs =
     (let s = slice_bound (length xs) a; e = slice_bound (length xs) b
      in if s < e then take s xs @ replicate (e - s) v @ drop e xs else xs)"

definition ncols :: "'a list list \<Rightarrow> nat" where
  "ncols m = (case m of [] \<Rightarrow> 0 | r # _ \<Rightarrow> length r)"

definition size2 :: "'a list list \<Rightarrow> nat" where
  "size2 m = length m * ncols m"

fun first_index :: "('a \<Rightarrow> bool) \<Rightarrow> 'a list \<Rightarrow> nat option" where
  "first_index P [] = None"
| "first_index P (x # xs) = (if P x then Some 0 else map_option Suc (first_index P xs))"

subsection \<open>MTD processing: the velocity axis\<close>

definition C_light :: real where
  "C_light = 3 * 10 ^ 8"

definition delta_v_of :: "parameters \<Rightarrow> real" where
  "delta_v_of params = C_light / (2 * real (prt_num params) * prt params * freq params)"

text \<open>
  Lines 394--424 of \<^verbatim>\<open>_process_batch\<close>. \<open>None\<close> is the \<^verbatim>\<open>continue\<close> of one of the
  guards; \<open>Some v_axis\<close> is the axis the rest of the frame body uses. The index vector
  is \<^verbatim>\<open>np.arange(-half_prt, half_prt)\<close>. On reals every value is finite, so the
  \<^verbatim>\<open>isfinite\<close> tests of the source do not appear.
\<close>

definition velocity_axis :: "parameters \<Rightarrow> real list option" where
  "velocity_axis params =
     (let delta_v = delta_v_of params in
      if delta_v \<le> 0 \<or> delta_v > 10000 then None
      else
        let half_prt = prt_num params div 2 in
        if half_prt \<le> 0 \<or> half_prt > 10000 then None
        else
          let v_start = - int half_prt;
              v_end = int half_prt;
              v_indices = [v_start .. v_end - 1];
              v_axis = map (\<lambda>i. real_of_int i * delta_v) v_indices
          in if length v_axis \<noteq> prt_num params then None else Some v_axis)"


subsection \<open>Target localisation\<close>

text \<open>
  Lines 427--439: the Doppler hint \<^verbatim>\<open>track_no_info[3]\<close> is re-centred, made 0-based and
  clipped (\<^verbatim>\<open>np.clip(a, lo, hi)\<close> is \<open>min (max a lo) hi\<close>). Integers are unbounded, as
  Python's are.
\<close>

definition doppler_hint :: "parameters \<Rightarrow> int" where
  "doppler_hint params =
     (let half_prt = int (prt_num params div 2);
          amp0 = int (track_no_info params ! 3);
          amp1 = (if amp0 > half_prt then amp0 - half_prt else amp0 + half_prt);
          amp2 = amp1 - 1
      in min (max amp2 0) (int (prt_num params) - 1))"

definition center_local_bin :: int where
  "center_local_bin = 15"

definition local_radius :: int where
  "local_radius = 5"

definition range_start_local :: int where
  "range_start_local = max 0 (center_local_bin - local_radius)"

definition range_end_local :: "matrix \<Rightarrow> int" where
  "range_end_local mtd = min (int (length mtd)) (center_local_bin + local_radius + 1)"

definition doppler_start :: "int \<Rightarrow> int" where
  "doppler_start amp = max 0 (amp - local_radius)"

definition doppler_end :: "matrix \<Rightarrow> int \<Rightarrow> int" where
  "doppler_end mtd amp = min (int (ncols mtd)) (amp + local_radius + 1)"

text \<open>
  Line 451, on magnitudes: the matrix \<open>mtd\<close> of this model holds \<open>|mtd_result|\<close>, the
  element-wise modulus of the shifted FFT of the windowed IQ matrix, which is all the
  localiser and the map builder read of it.
\<close>

definition target_window :: "matrix \<Rightarrow> int \<Rightarrow> matrix" where
  "target_window mtd amp =
     map (py_slice (doppler_start amp) (doppler_end mtd amp))
       (py_slice range_start_local (range_end_local mtd) mtd)"

text \<open>\<^verbatim>\<open>np.argmax\<close> of the flattened window: the first position of the maximum.\<close>

definition argmax_flat :: "real list \<Rightarrow> nat" where
  "argmax_flat xs =
     (case first_index (\<lambda>x. x = fold max xs (hd xs)) xs of None \<Rightarrow> 0 | Some k \<Rightarrow> k)"

subsection \<open>Map building\<close>

definition select_columns :: "bool list \<Rightarrow> 'a list \<Rightarrow> 'a list" where
  "select_columns keep row = map snd (filter fst (zip keep row))"

text \<open>
  Lines 484--488. The boolean mask is computed from the full axis and selects columns;
  \<^verbatim>\<open>velocity_index\<close> is the first position of an exactly-zero entry of the full
  \<^verbatim>\<open>velocity_axis\<close> (here \<open>v_axis\<close>) (\<^verbatim>\<open>np.where(...)[0][0]\<close> raises \<^verbatim>\<open>IndexError\<close> when there is none),
  and the slice assignment is applied to the rows of the masked matrix.
\<close>

definition notch_stage :: "real list \<Rightarrow> matrix \<Rightarrow> py_error + matrix" where
  "notch_stage v_axis mtd =
     (let velocity_mask = map (\<lambda>v. \<bar>v\<bar> < 56) v_axis in
      if ncols mtd \<noteq> length velocity_mask then Inl IndexError
      else
        let rd_matrix = map (select_columns velocity_mask) mtd in
        case first_index (\<lambda>v. v = 0) v_axis of
          None \<Rightarrow> Inl IndexError
        | Some velocity_index \<Rightarrow>
            Inr (map (py_slice_fill (int velocity_index - 4) (int velocity_index + 3) 0)
                   rd_matrix))"

text \<open>
  \<^verbatim>\<open>np.percentile(a, 5)\<close> with the default linear interpolation, on exact reals: the
  flattened array is sorted and the value at the virtual index \<open>(n - 1) * 5 / 100\<close> is
  interpolated between its two neighbours.
\<close>

definition percentile5 :: "real list \<Rightarrow> real" where
  "percentile5 a =
     (let arr = sort a;
          n = length arr;
          virtual_index = (real n - 1) * (5 / 100);
          previous = nat \<lfloor>virtual_index\<rfloor>;
          next = min (previous + 1) (n - 1);
          gamma = virtual_index - real previous
      in arr ! previous + (arr ! next - arr ! previous) * gamma)"

text \<open>Line 489. An empty matrix has no cell to compare and stays as it is.\<close>

definition noise_floor :: "matrix \<Rightarrow> matrix" where
  "noise_floor rd_matrix =
     (if concat rd_matrix = [] then rd_matrix
      else map (map (\<lambda>x. if x < percentile5 (concat rd_matrix) then 0 else x)) rd_matrix)"

text \<open>
  Lines 482--490 with \<^verbatim>\<open>transform = None\<close>; the trailing channel axis of line 490
  changes the shape only and is left out.
\<close>

definition map_builder :: "real list \<Rightarrow> matrix \<Rightarrow> py_error + matrix" where
  "map_builder v_axis mtd =
     (case notch_stage v_axis mtd of
        Inl e \<Rightarrow> Inl e
      | Inr rd_matrix \<Rightarrow> Inr (noise_floor rd_matrix))"

subsection \<open>The frame body and the batch loop\<close>

text \<open>
  Lines 426--493, the part of the \<^verbatim>\<open>try\<close> block after the velocity axis is known.
  \<open>Inl e\<close>: an exception is raised; \<open>Inr None\<close>: an explicit \<^verbatim>\<open>continue\<close>;
  \<open>Inr (Some m)\<close>: \<open>m\<close> is appended to \<^verbatim>\<open>rd_matrices\<close>. The range axis
  \<^verbatim>\<open>range_plot\<close> always has 31 entries.
\<close>

definition frame_tail :: "parameters \<Rightarrow> real list \<Rightarrow> matrix \<Rightarrow> py_error + matrix option" where
  "frame_tail params v_axis mtd =
     (if length (track_no_info params) < 4 then Inl IndexError
      else
        let amp_max_vr_unit = doppler_hint params;
            abs_target = target_window mtd amp_max_vr_unit
        in if size2 abs_target = 0 then Inr None
           else
             let max_idx = argmax_flat (concat abs_target);
                 amp_max_index_row = max_idx div ncols abs_target;
                 amp_max_index_col = max_idx mod ncols abs_target;
                 detected_range_bin = range_start_local + int amp_max_index_row
             in if detected_range_bin \<ge> 31 then Inr None
                else
                  let doppler_idx = doppler_start amp_max_vr_unit + int amp_max_index_col
                  in if doppler_idx \<ge> int (length v_axis) then Inr None
                     else
                       (case map_builder v_axis mtd of
                          Inl e \<Rightarrow> Inl e
                        | Inr rd_matrix \<Rightarrow> Inr (Some rd_matrix)))"

datatype frame_outcome = Skip | Emit matrix

text \<open>
  Lines 376 and 495--497: the handler \<^verbatim>\<open>except Exception: continue\<close> around the frame
  body turns every exception into a skipped frame.
\<close>

definition on_exception :: "py_error + matrix option \<Rightarrow> frame_outcome" where
  "on_exception r =
     (case r of Inl e \<Rightarrow> Skip | Inr None \<Rightarrow> Skip | Inr (Some rd_matrix) \<Rightarrow> Emit rd_matrix)"

definition frame_body :: "parameters \<Rightarrow> matrix \<Rightarrow> frame_outcome" where
  "frame_body params mtd =
     (if \<not> frame_precheck params then Skip
      else case velocity_axis params of
             None \<Rightarrow> Skip
           | Some v_axis \<Rightarrow> on_exception (frame_tail params v_axis mtd))"

text \<open>The accumulation of \<^verbatim>\<open>rd_matrices\<close> over the frames of one batch, in order.\<close>

fun collect :: "frame_outcome list \<Rightarrow> matrix list" where
  "collect [] = []"
| "collect (Skip # outs) = collect outs"
| "collect (Emit rd_matrix # outs) = rd_matrix # collect outs"

definition process_frames :: "(parameters \<times> matrix) list \<Rightarrow> matrix list" where
  "process_frames frames = collect (map (\<lambda>(params, mtd). frame_body params mtd) frames)"

subsection \<open>Sequence assembly\<close>

text \<open>
  \<^verbatim>\<open>np.stack\<close> (line 502) raises \<^verbatim>\<open>ValueError\<close> on an empty list and on maps of
  different shapes.
\<close>

definition shape2 :: "'a list list \<Rightarrow> nat \<times> nat" where
  "shape2 m = (length m, ncols m)"

definition np_stack :: "matrix list \<Rightarrow> py_error + matrix list" where
  "np_stack rd_matrices =
     (case rd_matrices of
        [] \<Rightarrow> Inl ValueError
      | m # ms \<Rightarrow> if list_all (\<lambda>m'. shape2 m' = shape2 m) ms then Inr rd_matrices
                  else Inl ValueError)"

definition zeros_like :: "matrix \<Rightarrow> matrix" where
  "zeros_like m = map (map (\<lambda>_. 0)) m"

text \<open>
  \<^verbatim>\<open>np.linspace(0, stop, num, dtype=int)\<close>: \<open>num\<close> samples \<open>i * step\<close> with
  \<open>step = stop / (num - 1)\<close>, the last one set to \<open>stop\<close>, each rounded down. The products
  are exact here.
\<close>

definition linspace_int :: "nat \<Rightarrow> nat \<Rightarrow> nat list" where
  "linspace_int stop num =
     (if num = 0 then []
      else if num = 1 then [0]
      else map (\<lambda>i. if i = num - 1 then stop
                     else nat \<lfloor>real i * (real stop / real (num - 1))\<rfloor>) [0 ..< num])"

text \<open>
  Lines 339--348 of \<^verbatim>\<open>RDSeq.__getitem__\<close>, on the stacked maps. In the padding branch
  the source rebinds \<^verbatim>\<open>images\<close> to the padded array and then executes
  \<^verbatim>\<open>image_mask[images.shape[0]:] = 0\<close>, so the slice starts at the padded length.
\<close>

definition assemble :: "nat \<Rightarrow> matrix list \<Rightarrow> py_error + (matrix list \<times> nat list)" where
  "assemble seq_len images0 =
     (let image_mask = replicate seq_len (1::nat) in
      if length images0 < seq_len then
        (let images = images0 @ replicate (seq_len - length images0) (zeros_like (hd images0));
             image_mask' = py_slice_fill (int (length images)) (int (length image_mask)) 0 image_mask
         in if length images = seq_len then Inr (images, image_mask') else Inl AssertionError)
      else if length images0 > seq_len then
        (let indices = linspace_int (length images0 - 1) seq_len in
         if list_all (\<lambda>i. i < length images0) indices then
           (let images = map (\<lambda>i. images0 ! i) indices
            in if length images = seq_len then Inr (images, image_mask) else Inl AssertionError)
         else Inl IndexError)
      else Inr (images0, image_mask))"

definition getitem :: "nat \<Rightarrow> matrix list \<Rightarrow> py_error + (matrix list \<times> nat list)" where
  "getitem seq_len rd_matrices =
     (case np_stack rd_matrices of
        Inl e \<Rightarrow> Inl e
      | Inr images \<Rightarrow> assemble seq_len images)"

subsection \<open>Sample inputs\<close>

text \<open>
  A magnitude matrix of 31 range rows and 16 Doppler columns whose column \<open>j\<close> holds
  \<open>j + 1\<close>, and a batch of \<open>n\<close> one-cell maps numbered in temporal order.
\<close>

definition ramp_mtd :: matrix where
  "ramp_mtd = replicate 31 [1, 2, 3, 4, 5, 6, 7, 8, 9, 10, 11, 12, 13, 14, 15, 16]"


section \<open>The binary frame stream\<close>

text \<open>
  A file is its list of bytes \<open>buf\<close> and a cursor. \<open>fread buf pos n\<close> is what
  \<^verbatim>\<open>fid.read(n)\<close> returns at cursor \<open>pos\<close> (fewer than \<open>n\<close> bytes at the end of the file);
  the cursor then stands at \<open>pos\<close> plus the number of bytes returned. Seeking past the
  end is allowed; seeking before the start raises.
\<close>

type_synonym byte = "8 word"

definition fread :: "byte list \<Rightarrow> nat \<Rightarrow> nat \<Rightarrow> byte list" where
  "fread buf pos n = take n (drop pos buf)"

text \<open>\<^verbatim>\<open>struct.unpack('<I', b)[0]\<close>: the little-endian value of a byte string.\<close>

definition le_nat :: "byte list \<Rightarrow> nat" where
  "le_nat bs = foldr (\<lambda>b acc. unat b + 256 * acc) bs 0"





definition FRAME_HEAD :: nat where
  "FRAME_HEAD = 0xFA55FA55"

definition FRAME_END :: nat where
  "FRAME_END = 0x55FA55FA"

text \<open>
  What a call of \<^verbatim>\<open>read_raw_data\<close> can do: return a value, return \<^verbatim>\<open>None, None\<close>, or
  let an exception escape (a seek before the start of the file outside the \<^verbatim>\<open>try\<close>
  blocks).
\<close>

datatype 'a outcome = Ret 'a | NoFrame | Raised

subsection \<open>Frame location\<close>

text \<open>
  Lines 94--102, the header scan: while the candidate is not the header sentinel and
  the cursor is before the end of the file, step back 3 bytes and read 4. The state is
  the cursor, the candidate \<open>head_find\<close>, and \<open>hp\<close>, the offset at which the candidate was
  read; \<open>hp\<close> is bookkeeping of the model, the source does not store it.
\<close>

function scan_head :: "byte list \<Rightarrow> nat \<Rightarrow> nat \<Rightarrow> nat \<Rightarrow> (nat \<times> nat \<times> nat) outcome" where
  "scan_head buf pos hp head_find =
     (if head_find \<noteq> FRAME_HEAD \<and> pos < length buf then
        (if pos < 3 then Raised
         else
           let head_bytes = fread buf (pos - 3) 4 in
           if length head_bytes < 4 then NoFrame
           else scan_head buf (pos - 3 + length head_bytes) (pos - 3) (le_nat head_bytes))
      else Ret (pos, hp, head_find))"
  by pat_completeness auto
termination
  by (relation "measure (\<lambda>(buf, pos, hp, head_find). length buf - pos)")
    (auto simp: fread_def)

text \<open>
  Lines 132--160, the loop entered when header or trailer do not match: seek by
  \<open>1 - frame_data_length\<close>, read a header candidate and a length, check the length, seek
  by \<open>frame_data_length - 8\<close> and read a trailer candidate.
\<close>

function resync ::
  "byte list \<Rightarrow> nat \<Rightarrow> nat \<Rightarrow> nat \<Rightarrow> nat \<Rightarrow> nat \<Rightarrow> (nat \<times> nat \<times> nat) outcome" where
  "resync buf pos hp head_find end_find frame_data_length =
     (if head_find \<noteq> FRAME_HEAD \<or> end_find \<noteq> FRAME_END then
        (if pos + 1 < frame_data_length then Raised
         else
           let pos1 = pos + 1 - frame_data_length;
               head_bytes = fread buf pos1 4 in
           if length head_bytes < 4 then NoFrame
           else
             let length_bytes = fread buf (pos1 + 4) 4 in
             if length length_bytes < 4 then NoFrame
             else
               let frame_data_length' = le_nat length_bytes * 4 in
               if frame_data_length' \<le> 0 \<or> frame_data_length' > 1000000 then NoFrame
               else
                 let pos2 = pos1 + 8 + frame_data_length' - 8;
                     end_bytes = fread buf pos2 4 in
                 if length end_bytes < 4 then NoFrame
                 else if pos2 + 4 \<ge> length buf
                         \<and> (le_nat head_bytes \<noteq> FRAME_HEAD \<or> le_nat end_bytes \<noteq> FRAME_END)
                 then NoFrame
                 else resync buf (pos2 + 4) pos1 (le_nat head_bytes) (le_nat end_bytes)
                        frame_data_length')
      else Ret (pos, hp, frame_data_length))"
  by pat_completeness auto
termination
  apply (relation "measure (\<lambda>(buf, pos, hp, head_find, end_find, frame_data_length).
        length buf + frame_data_length - pos)")
   apply simp
  apply (simp only: in_measure prod.case)
  subgoal premises p for buf pos hp head_find end_find frame_data_length
  proof -
    have a: "\<not> pos + 1 < frame_data_length" using p(2) .
    have b: "pos + 1 - frame_data_length + 4 \<le> length buf"
      using p(5) by (simp add: fread_def)
    show ?thesis using a b by arith
  qed
  done

text \<open>
  Lines 80--163. The result is the offset \<open>hp\<close> of the accepted header, the declared
  length in bytes, and the cursor after the seek of line 163, where decoding starts.
  The seek of line 123 is inside a \<^verbatim>\<open>try\<close> that catches \<^verbatim>\<open>OSError\<close>.
\<close>

definition locate_frame :: "byte list \<Rightarrow> nat \<Rightarrow> (nat \<times> nat \<times> nat) outcome" where
  "locate_frame buf pos0 =
     (let head_bytes = fread buf pos0 4 in
      if length head_bytes < 4 then NoFrame
      else
        case scan_head buf (pos0 + length head_bytes) pos0 (le_nat head_bytes) of
          NoFrame \<Rightarrow> NoFrame
        | Raised \<Rightarrow> Raised
        | Ret (pos, hp, head_find) \<Rightarrow>
            if head_find \<noteq> FRAME_HEAD then NoFrame
            else
              let length_bytes = fread buf pos 4 in
              if length length_bytes < 4 then NoFrame
              else
                let frame_data_length = le_nat length_bytes * 4 in
                if frame_data_length \<le> 0 \<or> frame_data_length > 1000000 then NoFrame
                else
                  let current_pos = pos + 4 in
                  if current_pos + frame_data_length < 12 then NoFrame
                  else
                    let end_bytes = fread buf (current_pos + frame_data_length - 12) 4 in
                    if length end_bytes < 4 then NoFrame
                    else
                      case resync buf (current_pos + frame_data_length - 12 + 4) hp head_find
                             (le_nat end_bytes) frame_data_length of
                        NoFrame \<Rightarrow> NoFrame
                      | Raised \<Rightarrow> Raised
                      | Ret (pos', hp', frame_data_length') \<Rightarrow>
                          if pos' + 4 < frame_data_length' then Raised
                          else Ret (hp', frame_data_length', pos' + 4 - frame_data_length'))"

subsection \<open>Frame decoding\<close>



subsection \<open>A frame encoder\<close>

text \<open>
  Modelled from the spec: the repository has no encoder; the round-trip law of the
  specification speaks of a symmetric encoder used only in tests. \<open>le32_bytes\<close> is
  \<^verbatim>\<open>struct.pack('<I', n)\<close>, \<open>words_bytes\<close> a sequence of such words, \<open>interleave\<close> the
  alternation of real and imaginary parts, \<open>unscale\<close> the raw integer of a scaled
  field (the nearest one).
\<close>

definition le32_bytes :: "nat \<Rightarrow> byte list" where
  "le32_bytes n = [of_nat n, of_nat (n div 256), of_nat (n div 65536), of_nat (n div 16777216)]"

definition words_bytes :: "nat list \<Rightarrow> byte list" where
  "words_bytes ws = concat (map le32_bytes ws)"









subsection \<open>Sample frames\<close>

text \<open>
  The smallest frame the locator accepts (header, declared length 3, trailer), and a
  matrix of 31 by 16 samples, each \<open>1.0 - 1.0j\<close> as float32 bit patterns.
\<close>

definition tiny_frame :: "byte list" where
  "tiny_frame = [0x55, 0xFA, 0x55, 0xFA, 3, 0, 0, 0, 0xFA, 0x55, 0xFA, 0x55]"



section \<open>Parameter validation: results\<close>

text \<open>
  C5. Parameter validation accepts a decoded record exactly when \<open>prt_num\<close> lies in
  \<open>[1, 10000]\<close>, \<open>prt\<close> in \<open>(0, 1]\<close>, \<open>freq\<close> in \<open>(0, 10^12]\<close> and \<open>track_no_info\<close> has at
  least four elements. In particular it rejects \<open>prt_num = 0\<close>, \<open>prt_num = 10001\<close>,
  \<open>prt \<le> 0\<close>, \<open>prt > 1\<close>, \<open>freq \<le> 0\<close>, \<open>freq > 10^12\<close> and a short \<open>track_no_info\<close>, and
  accepts the boundary values \<open>prt_num = 1\<close>, \<open>prt_num = 10000\<close> and \<open>prt = 1\<close>.
\<close>

theorem parameter_validator_exact:
  "parameter_validator params =
     (1 \<le> prt_num params \<and> prt_num params \<le> 10000 \<and>
      0 < prt params \<and> prt params \<le> 1 \<and>
      0 < freq params \<and> freq params \<le> 10 ^ 12 \<and>
      4 \<le> length (track_no_info params))
   \<and> \<not> parameter_validator (params\<lparr>prt_num := 0\<rparr>)
   \<and> \<not> parameter_validator (params\<lparr>prt_num := 10001\<rparr>)
   \<and> \<not> parameter_validator (params\<lparr>prt := 0\<rparr>)
   \<and> \<not> parameter_validator (params\<lparr>prt := 1 + 1 / 80000000\<rparr>)
   \<and> \<not> parameter_validator (params\<lparr>freq := 0\<rparr>)
   \<and> \<not> parameter_validator (params\<lparr>freq := 10 ^ 12 + 10 ^ 6\<rparr>)
   \<and> \<not> parameter_validator (params\<lparr>track_no_info := [1, 2, 3]\<rparr>)
   \<and> parameter_validator (nominal_params\<lparr>prt_num := 1\<rparr>)
   \<and> parameter_validator (nominal_params\<lparr>prt_num := 10000\<rparr>)
   \<and> parameter_validator (nominal_params\<lparr>prt := 1\<rparr>)
   \<and> parameter_validator (nominal_params\<lparr>freq := 10 ^ 12\<rparr>)"
  by (auto simp: parameter_validator_def param_check_def frame_precheck_def
      nominal_params_def)

section \<open>The velocity axis: results\<close>





text \<open>
  The axis the code builds always holds an exactly-zero velocity: the index vector
  \<open>[-half_prt, half_prt)\<close> contains 0 because \<open>half_prt \<ge> 1\<close>.
\<close>

lemma velocity_axis_has_zero:
  assumes "velocity_axis params = Some v_axis"
  shows "0 \<in> set v_axis"
proof -
  let ?h = "int (prt_num params div 2)"
  have h: "0 < prt_num params div 2"
    and v: "v_axis = map (\<lambda>i. real_of_int i * delta_v_of params) [- ?h .. ?h - 1]"
    using assms by (auto simp: velocity_axis_def Let_def split: if_splits)
  have "(0::int) \<in> set [- ?h .. ?h - 1]" using h by simp
  then have "real_of_int 0 * delta_v_of params \<in> set v_axis"
    unfolding v by (simp only: set_map) (rule imageI)
  then show ?thesis by simp
qed




section \<open>Target localisation: results\<close>



lemma ncols_replicate: "0 < n \<Longrightarrow> ncols (replicate n r) = length r"
  by (cases n) (simp_all add: ncols_def)






section \<open>Map building: results\<close>








subsection \<open>The noise floor\<close>



subsection \<open>The nominal frame, evaluated\<close>

lemma nominal_axis:
  "velocity_axis nominal_params =
     Some [-160, -140, -120, -100, -80, -60, -40, -20, 0, 20, 40, 60, 80, 100, 120, 140]"
  by (simp add: velocity_axis_def delta_v_of_def nominal_params_def C_light_def Let_def
      upto.simps)

lemma notch_nominal:
  "notch_stage [-160, -140, -120, -100, -80, -60, -40, -20, 0, 20, 40, 60, 80, 100, 120, 140]
     ramp_mtd = Inr (replicate 31 [7, 8, 9, 10, 0])"
  by (simp add: notch_stage_def ramp_mtd_def ncols_replicate Let_def
      select_columns_def py_slice_fill_def slice_bound_def)

lemma pct_nominal: "percentile5 (concat (replicate 31 [7, 8, 9, 10, 0::real])) = 0"
  by code_simp

lemma noise_floor_nominal:
  "noise_floor (replicate 31 [7, 8, 9, 10, 0]) = replicate 31 [7, 8, 9, 10, 0]"
  by (simp add: noise_floor_def pct_nominal)

lemma map_builder_nominal:
  "map_builder [-160, -140, -120, -100, -80, -60, -40, -20, 0, 20, 40, 60, 80, 100, 120, 140]
     ramp_mtd = Inr (replicate 31 [7, 8, 9, 10, 0])"
  by (simp add: map_builder_def notch_nominal noise_floor_nominal)

lemma hint_nominal: "doppler_hint nominal_params = 10"
  by (simp add: doppler_hint_def nominal_params_def)

lemma window_nominal:
  "target_window ramp_mtd 10 = replicate 11 [6, 7, 8, 9, 10, 11, 12, 13, 14, 15, 16]"
  by (simp add: target_window_def ramp_mtd_def py_slice_def slice_bound_def doppler_start_def
      doppler_end_def range_start_local_def range_end_local_def center_local_bin_def
      local_radius_def ncols_replicate Let_def)

lemma argmax_nominal:
  "argmax_flat (concat (replicate 11 [6, 7, 8, 9, 10, 11, 12, 13, 14, 15, 16])) = 10"
  by code_simp

lemma frame_body_nominal:
  "frame_body nominal_params ramp_mtd = Emit (replicate 31 [7, 8, 9, 10, 0])"
proof -
  have pre: "frame_precheck nominal_params"
    by (simp add: frame_precheck_def nominal_params_def)
  have tr: "length (track_no_info nominal_params) = 4" by (simp add: nominal_params_def)
  have tail: "frame_tail nominal_params
      [-160, -140, -120, -100, -80, -60, -40, -20, 0, 20, 40, 60, 80, 100, 120, 140] ramp_mtd
      = Inr (Some (replicate 31 [7, 8, 9, 10, 0]))"
    by (simp add: frame_tail_def tr hint_nominal window_nominal argmax_nominal size2_def
        ncols_replicate map_builder_nominal range_start_local_def center_local_bin_def
        local_radius_def doppler_start_def Let_def)
  show ?thesis
    by (simp add: frame_body_def pre nominal_axis tail on_exception_def)
qed



text \<open>
  C3, evaluated at a frame the code can receive: \<open>prt_num = 16\<close>, \<open>freq = 3.75 GHz\<close>,
  \<open>prt = 125 us\<close>, so \<open>delta_v = 20\<close>. The velocity mask keeps the five columns with
  velocities \<open>-40, -20, 0, 20, 40\<close>, so the zero-Doppler column is column 2 of the masked
  matrix (it holds 9). The index the code uses is 8, the position of 0 in the unmasked
  axis, and the slice \<^verbatim>\<open>[8 - 4 : 8 + 3]\<close> of the five masked columns is column 4 alone:
  the column of velocity 40 is zeroed, and the zero-Doppler column and its neighbours
  are left as they were, also in the map the frame emits.
\<close>

theorem clutter_notch_uses_unmasked_index:
  "velocity_axis nominal_params =
     Some [-160, -140, -120, -100, -80, -60, -40, -20, 0, 20, 40, 60, 80, 100, 120, 140]
   \<and> select_columns
        (map (\<lambda>v. \<bar>v\<bar> < 56)
           [-160, -140, -120, -100, -80, -60, -40, -20, 0, 20, 40, 60, 80, 100, 120, 140::real])
        [-160, -140, -120, -100, -80, -60, -40, -20, 0, 20, 40, 60, 80, 100, 120, 140::real]
       = [-40, -20, 0, 20, 40]
   \<and> first_index (\<lambda>v. v = 0)
        [-160, -140, -120, -100, -80, -60, -40, -20, 0, 20, 40, 60, 80, 100, 120, 140::real]
       = Some 8
   \<and> notch_stage
        [-160, -140, -120, -100, -80, -60, -40, -20, 0, 20, 40, 60, 80, 100, 120, 140]
        ramp_mtd = Inr (replicate 31 [7, 8, 9, 10, 0])
   \<and> frame_body nominal_params ramp_mtd = Emit (replicate 31 [7, 8, 9, 10, 0])"
  by (simp add: nominal_axis notch_nominal frame_body_nominal select_columns_def)

section \<open>Sequence assembly: results\<close>

lemma np_stack_replicate: "0 < n \<Longrightarrow> np_stack (replicate n m) = Inr (replicate n m)"
  by (cases n) (simp_all add: np_stack_def list_all_iff)


lemma assemble_pad:
  assumes "length imgs < L"
  shows "assemble L imgs =
     Inr (imgs @ replicate (L - length imgs) (zeros_like (hd imgs)), replicate L 1)"
  using assms by (simp add: assemble_def Let_def py_slice_fill_def slice_bound_def)

text \<open>
  C1, evaluated at \<open>L = 180\<close> and a batch of 100 one-cell maps. The sequence is the
  100 maps followed by 80 zero maps of the same shape, as the claim says. The mask is
  180 ones: the slice assignment \<^verbatim>\<open>image_mask[images.shape[0]:] = 0\<close> runs after
  \<^verbatim>\<open>images\<close> was rebound to the padded array, so it starts at 180 and changes nothing.
  The mask of the claim, 100 ones followed by 80 zeros, is not what is returned.
\<close>

theorem getitem_pad_mask_all_ones:
  "getitem 180 (replicate 100 [[1]])
     = Inr (replicate 100 [[1]] @ replicate 80 [[0]], replicate 180 1)
   \<and> length (filter (\<lambda>b. b = 1) (replicate 180 (1::nat))) = 180
   \<and> replicate 180 (1::nat) \<noteq> replicate 100 1 @ replicate 80 0"
proof -
  have "getitem 180 (replicate 100 [[1]])
      = Inr (replicate 100 [[1]] @ replicate 80 [[0]], replicate 180 1)"
    by (simp add: getitem_def np_stack_replicate assemble_pad zeros_like_def)
  moreover have "replicate 180 (1::nat) ! 100 \<noteq> (replicate 100 1 @ replicate 80 0) ! 100"
    by (simp add: nth_append)
  then have "replicate 180 (1::nat) \<noteq> replicate 100 1 @ replicate 80 0" by metis
  ultimately show ?thesis by simp
qed







section \<open>Frame location: results\<close>

declare scan_head.simps [simp del] resync.simps [simp del]

lemma fread_length_le: "length (fread buf pos n) \<le> n"
  by (simp add: fread_def)

lemma fread_full: "pos + n \<le> length buf \<Longrightarrow> length (fread buf pos n) = n"
  by (simp add: fread_def)

lemma head_end_differ: "FRAME_HEAD \<noteq> FRAME_END"
  by (simp add: FRAME_HEAD_def FRAME_END_def)

lemma scan_head_finds:
  assumes "pos0 \<le> h" and "h + 4 \<le> length buf"
    and "\<forall>p. pos0 \<le> p \<and> p < h \<longrightarrow> le_nat (fread buf p 4) \<noteq> FRAME_HEAD"
    and "le_nat (fread buf h 4) = FRAME_HEAD"
  shows "scan_head buf (pos0 + 4) pos0 (le_nat (fread buf pos0 4)) = Ret (h + 4, h, FRAME_HEAD)"
  using assms
proof (induction "h - pos0" arbitrary: pos0)
  case 0
  then have "pos0 = h" by simp
  with 0 show ?case by (subst scan_head.simps) simp
next
  case (Suc d)
  then have lt: "pos0 < h" by simp
  have nh: "le_nat (fread buf pos0 4) \<noteq> FRAME_HEAD" using Suc.prems(3) lt by simp
  have full: "length (fread buf (pos0 + 1) 4) = 4"
    using lt Suc.prems(2) by (simp add: fread_full)
  have IH: "scan_head buf (pos0 + 1 + 4) (pos0 + 1) (le_nat (fread buf (pos0 + 1) 4))
      = Ret (h + 4, h, FRAME_HEAD)"
  proof (rule Suc.hyps(1))
    show "d = h - (pos0 + 1)" using Suc.hyps(2) by simp
    show "pos0 + 1 \<le> h" using lt by simp
    show "h + 4 \<le> length buf" by (rule Suc.prems(2))
    show "\<forall>p. pos0 + 1 \<le> p \<and> p < h \<longrightarrow> le_nat (fread buf p 4) \<noteq> FRAME_HEAD"
      using Suc.prems(3) by simp
    show "le_nat (fread buf h 4) = FRAME_HEAD" by (rule Suc.prems(4))
  qed
  have pl: "pos0 + 4 < length buf" using lt Suc.prems(2) by simp
  show ?case
    by (subst scan_head.simps) (use nh pl full IH in \<open>simp add: Let_def\<close>)
qed

lemma scan_head_candidate:
  "scan_head buf pos hp head_find = Ret (pos', hp', head_find') \<Longrightarrow>
   head_find = le_nat (fread buf hp 4) \<Longrightarrow> head_find' = le_nat (fread buf hp' 4)"
proof (induction buf pos hp head_find rule: scan_head.induct)
  case (1 buf pos hp head_find)
  show ?case
  proof (cases "head_find \<noteq> FRAME_HEAD \<and> pos < length buf")
    case False
    with "1.prems" show ?thesis by (subst (asm) scan_head.simps) auto
  next
    case True
    from "1.prems"(1) True have ge: "\<not> pos < 3"
      by (subst (asm) scan_head.simps) (auto split: if_splits)
    from "1.prems"(1) True ge have full: "\<not> length (fread buf (pos - 3) 4) < 4"
      by (subst (asm) scan_head.simps) (auto simp: Let_def split: if_splits)
    from "1.prems"(1) True ge full
    have rec: "scan_head buf (pos - 3 + length (fread buf (pos - 3) 4)) (pos - 3)
        (le_nat (fread buf (pos - 3) 4)) = Ret (pos', hp', head_find')"
      by (subst (asm) scan_head.simps) (simp add: Let_def)
    show ?thesis
      by (rule "1.IH"[OF True ge refl full rec]) simp
  qed
qed


lemma resync_header:
  "resync buf pos hp head_find end_find fdl = Ret (pos', hp', fdl') \<Longrightarrow>
   head_find = le_nat (fread buf hp 4) \<Longrightarrow> le_nat (fread buf hp' 4) = FRAME_HEAD"
proof (induction buf pos hp head_find end_find fdl rule: resync.induct)
  case (1 buf pos hp head_find end_find fdl)
  show ?case
  proof (cases "head_find \<noteq> FRAME_HEAD \<or> end_find \<noteq> FRAME_END")
    case False
    with "1.prems" show ?thesis by (subst (asm) resync.simps) auto
  next
    case True
    define pos1 where "pos1 = pos + 1 - fdl"
    define head_bytes where "head_bytes = fread buf pos1 4"
    define length_bytes where "length_bytes = fread buf (pos1 + 4) 4"
    define fdl1 where "fdl1 = le_nat length_bytes * 4"
    define pos2 where "pos2 = pos1 + 8 + fdl1 - 8"
    define end_bytes where "end_bytes = fread buf pos2 4"
    note defs = pos1_def head_bytes_def length_bytes_def fdl1_def pos2_def end_bytes_def
    from "1.prems"(1) True have c1: "\<not> pos + 1 < fdl"
      by (subst (asm) resync.simps) (auto split: if_splits)
    from "1.prems"(1) True c1 have c2: "\<not> length head_bytes < 4"
      unfolding defs by (subst (asm) resync.simps) (auto simp: Let_def split: if_splits)
    from "1.prems"(1) True c1 c2 have c3: "\<not> length length_bytes < 4"
      unfolding defs by (subst (asm) resync.simps) (auto simp: Let_def split: if_splits)
    from "1.prems"(1) True c1 c2 c3 have c4: "\<not> (fdl1 \<le> 0 \<or> fdl1 > 1000000)"
      unfolding defs by (subst (asm) resync.simps) (auto simp: Let_def split: if_splits)
    from "1.prems"(1) True c1 c2 c3 c4 have c5: "\<not> length end_bytes < 4"
      unfolding defs by (subst (asm) resync.simps) (auto simp: Let_def split: if_splits)
    from "1.prems"(1) True c1 c2 c3 c4 c5
    have c6: "\<not> (pos2 + 4 \<ge> length buf
        \<and> (le_nat head_bytes \<noteq> FRAME_HEAD \<or> le_nat end_bytes \<noteq> FRAME_END))"
      unfolding defs by (subst (asm) resync.simps) (auto simp: Let_def split: if_splits)
    from "1.prems"(1) True c1 c2 c3 c4 c5 c6
    have rec: "resync buf (pos2 + 4) pos1 (le_nat head_bytes) (le_nat end_bytes) fdl1
        = Ret (pos', hp', fdl')"
      unfolding defs by (subst (asm) resync.simps) (auto simp: Let_def split: if_splits)
    show ?thesis
      by (rule "1.IH"[OF True c1 pos1_def head_bytes_def c2 length_bytes_def c3 fdl1_def c4
            pos2_def end_bytes_def c5 c6 rec]) (simp add: head_bytes_def)
  qed
qed

lemma locate_frame_header:
  assumes "locate_frame buf pos0 = Ret (hp, fdl, pos)"
  shows "le_nat (fread buf hp 4) = FRAME_HEAD"
proof -
  have "\<exists>p1 hp1 hf1 p2 fdl0 ef q.
      scan_head buf (pos0 + length (fread buf pos0 4)) pos0 (le_nat (fread buf pos0 4))
          = Ret (p1, hp1, hf1)
      \<and> resync buf p2 hp1 hf1 ef fdl0 = Ret (q, hp, fdl)"
    using assms
    by (simp add: locate_frame_def Let_def split: if_splits outcome.splits prod.splits) blast
  then obtain p1 hp1 hf1 p2 fdl0 ef q where
    s: "scan_head buf (pos0 + length (fread buf pos0 4)) pos0 (le_nat (fread buf pos0 4))
          = Ret (p1, hp1, hf1)"
    and r: "resync buf p2 hp1 hf1 ef fdl0 = Ret (q, hp, fdl)"
    by blast
  have "hf1 = le_nat (fread buf hp1 4)"
    by (rule scan_head_candidate[OF s]) simp
  with r show ?thesis using resync_header by blast
qed


lemma locate_at_first_header:
  assumes "pos0 \<le> h"
    and "\<forall>p. pos0 \<le> p \<and> p < h \<longrightarrow> le_nat (fread buf p 4) \<noteq> FRAME_HEAD"
    and "le_nat (fread buf h 4) = FRAME_HEAD"
    and "L = le_nat (fread buf (h + 4) 4) * 4" and "0 < L" and "L \<le> 1000000"
    and "h + L \<le> length buf" and "le_nat (fread buf (h + L - 4) 4) = FRAME_END"
  shows "locate_frame buf pos0 = Ret (h, L, h + 4)"
proof -
  have L4: "L \<noteq> 4"
  proof
    assume "L = 4"
    with assms(8) assms(3) show False using head_end_differ by simp
  qed
  have L8: "L \<noteq> 8"
  proof
    assume e: "L = 8"
    with assms(8) have "le_nat (fread buf (h + 4) 4) = FRAME_END" by (simp add: ac_simps)
    with assms(4) e show False by (simp add: FRAME_END_def)
  qed
  have "L mod 4 = 0" using assms(4) by simp
  with L4 L8 assms(5) have L12: "12 \<le> L" by presburger
  have h4: "h + 4 \<le> length buf" using L12 assms(7) by simp
  have full0: "length (fread buf pos0 4) = 4"
    using assms(1) h4 by (simp add: fread_full)
  have sc: "scan_head buf (pos0 + 4) pos0 (le_nat (fread buf pos0 4))
      = Ret (h + 4, h, FRAME_HEAD)"
    by (rule scan_head_finds[OF assms(1) h4 assms(2) assms(3)])
  have fullL: "length (fread buf (h + 4) 4) = 4"
    using L12 assms(7) by (simp add: fread_full)
  have pe: "h + 4 + 4 + L - 12 = h + L - 4" using L12 by simp
  have fullE: "length (fread buf (h + L - 4) 4) = 4"
    using L12 assms(7) by (simp add: fread_full)
  have rs: "resync buf (h + L - 4 + 4) h FRAME_HEAD FRAME_END L = Ret (h + L - 4 + 4, h, L)"
    by (subst resync.simps) simp
  have bk: "h + L - 4 + 4 + 4 - L = h + 4" using L12 by simp
  have nlt: "\<not> h + L - 4 + 4 + 4 < L" using L12 by simp
  have nlt12: "\<not> h + 4 + 4 + L < 12" using L12 by simp
  show ?thesis
    unfolding locate_frame_def Let_def
    by (simp only: full0 sc outcome.case prod.case fullL assms(4)[symmetric] assms(5,6,8) pe
        fullE rs bk nlt nlt12 if_False if_True simp_thms less_irrefl)
      (use assms(5,6) in simp)
qed

text \<open>
  C7, as the code has it. Let \<open>h\<close> be the first offset at or after the cursor at which the
  four bytes read are the header sentinel \<open>0xFA55FA55\<close>, let the declared length
  \<open>L = 4 * word (h + 4)\<close> lie in \<open>(0, 1000000]\<close>, and let the trailer sentinel \<open>0x55FA55FA\<close>
  stand at \<open>h + L - 4\<close>, inside the buffer. Then the locator, stepping one byte at a time
  (read 4, back 3), accepts exactly the header offset \<open>h\<close> and the length \<open>L\<close>, and leaves
  the cursor at \<open>h + 4\<close>. Whatever the buffer, a position it accepts holds the header
  sentinel and so never the trailer sentinel.
\<close>

theorem locate_frame_first_header:
  assumes "pos0 \<le> h"
    and "\<forall>p. pos0 \<le> p \<and> p < h \<longrightarrow> le_nat (fread buf p 4) \<noteq> FRAME_HEAD"
    and "le_nat (fread buf h 4) = FRAME_HEAD"
    and "L = le_nat (fread buf (h + 4) 4) * 4" and "0 < L" and "L \<le> 1000000"
    and "h + L \<le> length buf" and "le_nat (fread buf (h + L - 4) 4) = FRAME_END"
  shows "locate_frame buf pos0 = Ret (h, L, h + 4)
       \<and> (\<forall>buf' pos' hp' L' c'.
             locate_frame buf' pos' = Ret (hp', L', c') \<longrightarrow>
               le_nat (fread buf' hp' 4) = FRAME_HEAD
               \<and> le_nat (fread buf' hp' 4) \<noteq> FRAME_END)"
  using locate_at_first_header[OF assms] locate_frame_header head_end_differ by auto

text \<open>The theorem on three stray bytes followed by the smallest frame.\<close>

theorem locate_frame_first_header_witness:
  "(0::nat) \<le> 3
   \<and> le_nat (fread ([1, 2, 3] @ tiny_frame) 3 4) = FRAME_HEAD
   \<and> (12::nat) = le_nat (fread ([1, 2, 3] @ tiny_frame) (3 + 4) 4) * 4
   \<and> 3 + 12 \<le> length ([1, 2, 3] @ tiny_frame)
   \<and> le_nat (fread ([1, 2, 3] @ tiny_frame) (3 + 12 - 4) 4) = FRAME_END
   \<and> locate_frame ([1, 2, 3] @ tiny_frame) 0 = Ret (3, 12, 3 + 4)"
proof -
  let ?buf = "[1, 2, 3] @ tiny_frame"
  have a: "(0::nat) \<le> 3" by simp
  have b: "\<forall>p. 0 \<le> p \<and> p < 3 \<longrightarrow> le_nat (fread ?buf p 4) \<noteq> FRAME_HEAD"
  proof (intro allI impI)
    fix p :: nat assume "0 \<le> p \<and> p < 3"
    then have "p = 0 \<or> p = 1 \<or> p = 2" by arith
    then show "le_nat (fread ?buf p 4) \<noteq> FRAME_HEAD"
      by (auto simp: tiny_frame_def fread_def le_nat_def FRAME_HEAD_def)
  qed
  have c: "le_nat (fread ?buf 3 4) = FRAME_HEAD"
    by (simp add: tiny_frame_def fread_def le_nat_def FRAME_HEAD_def)
  have d: "(12::nat) = le_nat (fread ?buf (3 + 4) 4) * 4"
    by (simp add: tiny_frame_def fread_def le_nat_def)
  have e: "(0::nat) < 12" "(12::nat) \<le> 1000000" by simp_all
  have f: "3 + 12 \<le> length ?buf" by (simp add: tiny_frame_def)
  have g: "le_nat (fread ?buf (3 + 12 - 4) 4) = FRAME_END"
    by (simp add: tiny_frame_def fread_def le_nat_def FRAME_END_def)
  show ?thesis
    using locate_frame_first_header[OF a b c d e f g] a c d f g by simp
qed

text \<open>
  The claim as stated, for every buffer that contains a structurally valid frame, fails
  when the header sentinel occurs earlier by chance: here it is followed by a declared
  length of 0, the check of lines 116--117 returns \<^verbatim>\<open>None\<close>, and the valid frame at
  offset 8 is not found.
\<close>

theorem locate_frame_spurious_header:
  "le_nat (fread ([0x55, 0xFA, 0x55, 0xFA, 0, 0, 0, 0] @ tiny_frame) 8 4) = FRAME_HEAD
   \<and> le_nat (fread ([0x55, 0xFA, 0x55, 0xFA, 0, 0, 0, 0] @ tiny_frame) (8 + 4) 4) * 4 = 12
   \<and> le_nat (fread ([0x55, 0xFA, 0x55, 0xFA, 0, 0, 0, 0] @ tiny_frame) (8 + 12 - 4) 4)
       = FRAME_END
   \<and> locate_frame ([0x55, 0xFA, 0x55, 0xFA, 0, 0, 0, 0] @ tiny_frame) 0 = NoFrame
   \<and> locate_frame ([0x55, 0xFA, 0x55, 0xFA, 0, 0, 0, 0] @ tiny_frame) 0 \<noteq> Ret (8, 12, 8 + 4)"
proof -
  let ?buf = "[0x55, 0xFA, 0x55, 0xFA, 0, 0, 0, 0] @ tiny_frame"
  have h0: "le_nat (fread ?buf 0 4) = FRAME_HEAD"
    by (simp add: fread_def le_nat_def FRAME_HEAD_def)
  have sc: "scan_head ?buf (0 + length (fread ?buf 0 4)) 0 (le_nat (fread ?buf 0 4))
      = Ret (4, 0, FRAME_HEAD)"
    unfolding h0 by (subst scan_head.simps) (simp add: fread_def)
  have l0: "le_nat (fread ?buf 4 4) = 0" by (simp add: fread_def le_nat_def)
  have nf: "locate_frame ?buf 0 = NoFrame"
    unfolding locate_frame_def Let_def sc by (simp add: fread_def le_nat_def)
  show ?thesis
    unfolding nf
    by (simp add: tiny_frame_def fread_def le_nat_def FRAME_HEAD_def FRAME_END_def)
qed

section \<open>Frame decoding: results\<close>

subsection \<open>Words and bytes\<close>




lemma words_bytes_append: "words_bytes (xs @ ys) = words_bytes xs @ words_bytes ys"
  by (simp add: words_bytes_def)


















subsection \<open>Decoding an encoded frame\<close>







subsection \<open>What no frame decodes to\<close>







end
